theory Spec2Isabelle
  imports Complex_Main
begin

section \<open>The shape model of shapes.py\<close>

text \<open>
  The embedding follows \<^verbatim>\<open>shapes.py\<close> class by class. Each class is a record that
  extends the record of the base class \<^verbatim>\<open>Shape\<close>; a method that mutates \<^verbatim>\<open>self\<close>
  takes the record and returns the updated one. Python numbers (pixel coordinates, radii, angles)
  are idealised as \<^typ>\<open>real\<close>: rounding, overflow and NaN of IEEE doubles are outside the model,
  so an identity that holds here is what the program computes up to floating-point error.
  Exceptions are values of \<open>py_error + 'a\<close>. The optional arguments
  \<^verbatim>\<open>center_x=None, center_y=None\<close> of \<^verbatim>\<open>scale\<close> and \<^verbatim>\<open>rotate\<close> are the parameters
  \<open>pivot_x\<close> and \<open>pivot_y\<close> of type \<^typ>\<open>real option\<close>, because \<open>center_x\<close> and
  \<open>center_y\<close> name the attributes of the classes.
\<close>

datatype py_error = ZeroDivisionError | ValueError

type_synonym point = "real \<times> real"

text \<open>Python's \<^verbatim>\<open>a / b\<close> on numbers: a zero divisor raises.\<close>

definition py_truediv :: "real \<Rightarrow> real \<Rightarrow> py_error + real" where
  "py_truediv a b = (if b = 0 then Inl ZeroDivisionError else Inr (a / b))"

text \<open>Python's \<^verbatim>\<open>min(xs)\<close> and \<^verbatim>\<open>max(xs)\<close>: an empty argument raises ValueError.\<close>

fun py_min :: "real list \<Rightarrow> py_error + real" where
  "py_min [] = Inl ValueError"
| "py_min (x # xs) = Inr (fold min xs x)"

fun py_max :: "real list \<Rightarrow> py_error + real" where
  "py_max [] = Inl ValueError"
| "py_max (x # xs) = Inr (fold max xs x)"

text \<open>
  The default centre of Triangle and Polygon:
  \<^verbatim>\<open>xs = [p[0] for p in self.points]; center_x = sum(xs) / len(xs)\<close>, likewise for y.
\<close>

definition points_mean :: "point list \<Rightarrow> py_error + point" where
  "points_mean ps =
     (let xs = map fst ps; ys = map snd ps in
      case py_truediv (sum_list xs) (real (length xs)) of
        Inl e \<Rightarrow> Inl e
      | Inr center_x \<Rightarrow>
          (case py_truediv (sum_list ys) (real (length ys)) of
             Inl e \<Rightarrow> Inl e
           | Inr center_y \<Rightarrow> Inr (center_x, center_y)))"

text \<open>
  The three loops over \<^verbatim>\<open>self.points\<close> that shapes.py repeats in every point-list class:
  the scaling comprehension, the rotation loop and the shear loop.
\<close>

definition scale_points :: "real \<Rightarrow> real \<Rightarrow> real \<Rightarrow> point list \<Rightarrow> point list" where
  "scale_points factor center_x center_y ps =
     map (\<lambda>(x, y). (center_x + (x - center_x) * factor,
                     center_y + (y - center_y) * factor)) ps"

definition rotate_points :: "real \<Rightarrow> real \<Rightarrow> real \<Rightarrow> point list \<Rightarrow> point list" where
  "rotate_points angle center_x center_y ps =
     (let cos_a = cos angle; sin_a = sin angle in
      map (\<lambda>(x, y).
             (let dx = x - center_x; dy = y - center_y in
              (center_x + dx * cos_a - dy * sin_a,
               center_y + dx * sin_a + dy * cos_a))) ps)"

definition shear_points :: "real \<Rightarrow> real \<Rightarrow> point list \<Rightarrow> point list" where
  "shear_points shear_x shear_y ps =
     map (\<lambda>(x, y). (x + shear_x * y, y + shear_y * x)) ps"

definition translate_points :: "real \<Rightarrow> real \<Rightarrow> point list \<Rightarrow> point list" where
  "translate_points dx dy ps = map (\<lambda>(x, y). (x + dx, y + dy)) ps"

subsection \<open>class Shape\<close>

record Shape =
  selected :: bool
  line_color :: string
  fill_color :: string
  line_width :: int
  line_style :: string

subsection \<open>class Line\<close>

record Line = Shape +
  x1 :: real
  y1 :: real
  x2 :: real
  y2 :: real

definition Line_init :: "real \<Rightarrow> real \<Rightarrow> real \<Rightarrow> real \<Rightarrow> Line" where
  "Line_init a b c d =
     \<lparr>selected = False, line_color = ''black'', fill_color = '''', line_width = 2,
      line_style = ''solid'', Line.x1 = a, Line.y1 = b, Line.x2 = c, Line.y2 = d\<rparr>"

definition Line_contains_point :: "Line \<Rightarrow> real \<Rightarrow> real \<Rightarrow> py_error + bool" where
  "Line_contains_point self x y =
     (let A = Line.y2 self - Line.y1 self;
          B = Line.x1 self - Line.x2 self;
          C = Line.x2 self * Line.y1 self - Line.x1 self * Line.y2 self;
          denominator = sqrt (A * A + B * B)
      in if denominator = 0 then
           (let distance_to_point = sqrt ((x - Line.x1 self) ^ 2 + (y - Line.y1 self) ^ 2)
            in Inr (distance_to_point < 5))
         else
           (case py_truediv \<bar>A * x + B * y + C\<bar> denominator of
              Inl e \<Rightarrow> Inl e
            | Inr distance \<Rightarrow>
                (let min_x = min (Line.x1 self) (Line.x2 self);
                     max_x = max (Line.x1 self) (Line.x2 self);
                     min_y = min (Line.y1 self) (Line.y2 self);
                     max_y = max (Line.y1 self) (Line.y2 self)
                 in Inr (distance < 5 \<and> min_x - 5 \<le> x \<and> x \<le> max_x + 5
                         \<and> min_y - 5 \<le> y \<and> y \<le> max_y + 5))))"

definition Line_get_bounds :: "Line \<Rightarrow> real \<times> real \<times> real \<times> real" where
  "Line_get_bounds self =
     (min (Line.x1 self) (Line.x2 self), min (Line.y1 self) (Line.y2 self),
      max (Line.x1 self) (Line.x2 self), max (Line.y1 self) (Line.y2 self))"

definition Line_translate :: "Line \<Rightarrow> real \<Rightarrow> real \<Rightarrow> Line" where
  "Line_translate self dx dy =
     self\<lparr>Line.x1 := Line.x1 self + dx, Line.y1 := Line.y1 self + dy,
          Line.x2 := Line.x2 self + dx, Line.y2 := Line.y2 self + dy\<rparr>"

definition Line_scale :: "Line \<Rightarrow> real \<Rightarrow> real option \<Rightarrow> real option \<Rightarrow> Line" where
  "Line_scale self factor pivot_x pivot_y =
     (let (cx, cy) =
            (case (pivot_x, pivot_y) of
               (Some cx, Some cy) \<Rightarrow> (cx, cy)
             | _ \<Rightarrow> ((Line.x1 self + Line.x2 self) / 2, (Line.y1 self + Line.y2 self) / 2))
      in self\<lparr>Line.x1 := cx + (Line.x1 self - cx) * factor,
              Line.y1 := cy + (Line.y1 self - cy) * factor,
              Line.x2 := cx + (Line.x2 self - cx) * factor,
              Line.y2 := cy + (Line.y2 self - cy) * factor\<rparr>)"

definition Line_rotate :: "Line \<Rightarrow> real \<Rightarrow> real option \<Rightarrow> real option \<Rightarrow> Line" where
  "Line_rotate self angle pivot_x pivot_y =
     (let (cx, cy) =
            (case (pivot_x, pivot_y) of
               (Some cx, Some cy) \<Rightarrow> (cx, cy)
             | _ \<Rightarrow> ((Line.x1 self + Line.x2 self) / 2, (Line.y1 self + Line.y2 self) / 2));
          cos_a = cos angle;
          sin_a = sin angle;
          dx1 = Line.x1 self - cx;
          dy1 = Line.y1 self - cy;
          dx2 = Line.x2 self - cx;
          dy2 = Line.y2 self - cy
      in self\<lparr>Line.x1 := cx + dx1 * cos_a - dy1 * sin_a,
              Line.y1 := cy + dx1 * sin_a + dy1 * cos_a,
              Line.x2 := cx + dx2 * cos_a - dy2 * sin_a,
              Line.y2 := cy + dx2 * sin_a + dy2 * cos_a\<rparr>)"

text \<open>\<^verbatim>\<open>Line.copy\<close> builds a fresh Line and assigns three of the style attributes;
  \<^verbatim>\<open>fill_color\<close> and \<^verbatim>\<open>selected\<close> keep the values \<^verbatim>\<open>Shape.__init__\<close> gave them.\<close>

definition Line_copy :: "Line \<Rightarrow> Line" where
  "Line_copy self =
     (let new_line = Line_init (Line.x1 self) (Line.y1 self) (Line.x2 self) (Line.y2 self)
      in new_line\<lparr>line_color := line_color self, line_width := line_width self,
                  line_style := line_style self\<rparr>)"

definition Line_shear :: "Line \<Rightarrow> real \<Rightarrow> real \<Rightarrow> Line" where
  "Line_shear self shear_x shear_y =
     (let x1 = Line.x1 self; y1 = Line.y1 self; x2 = Line.x2 self; y2 = Line.y2 self;
          new_x1 = x1 + shear_x * y1;
          new_y1 = y1 + shear_y * x1;
          new_x2 = x2 + shear_x * y2;
          new_y2 = y2 + shear_y * x2
      in self\<lparr>Line.x1 := new_x1, Line.y1 := new_y1, Line.x2 := new_x2, Line.y2 := new_y2\<rparr>)"

subsection \<open>class Polygon: the data\<close>

text \<open>The record of Polygon comes first because three \<^verbatim>\<open>shear\<close> methods turn their object
  into a Polygon; its methods follow below in the order of shapes.py.\<close>

record Polygon = Shape +
  points :: "point list"

definition Polygon_init :: "point list \<Rightarrow> Polygon" where
  "Polygon_init ps =
     \<lparr>selected = False, line_color = ''black'', fill_color = '''', line_width = 2,
      line_style = ''solid'', Polygon.points = ps\<rparr>"

subsection \<open>class Circle\<close>

record Circle = Shape +
  center_x :: real
  center_y :: real
  radius :: real

definition Circle_init :: "real \<Rightarrow> real \<Rightarrow> real \<Rightarrow> Circle" where
  "Circle_init cx cy r =
     \<lparr>selected = False, line_color = ''black'', fill_color = '''', line_width = 2,
      line_style = ''solid'', Circle.center_x = cx, Circle.center_y = cy, Circle.radius = r\<rparr>"

definition Circle_contains_point :: "Circle \<Rightarrow> real \<Rightarrow> real \<Rightarrow> bool" where
  "Circle_contains_point self x y =
     (let distance = sqrt ((x - Circle.center_x self) ^ 2 + (y - Circle.center_y self) ^ 2)
      in \<bar>distance - Circle.radius self\<bar> < 5)"

definition Circle_get_bounds :: "Circle \<Rightarrow> real \<times> real \<times> real \<times> real" where
  "Circle_get_bounds self =
     (Circle.center_x self - Circle.radius self, Circle.center_y self - Circle.radius self,
      Circle.center_x self + Circle.radius self, Circle.center_y self + Circle.radius self)"

definition Circle_translate :: "Circle \<Rightarrow> real \<Rightarrow> real \<Rightarrow> Circle" where
  "Circle_translate self dx dy =
     self\<lparr>Circle.center_x := Circle.center_x self + dx,
          Circle.center_y := Circle.center_y self + dy\<rparr>"

definition Circle_scale :: "Circle \<Rightarrow> real \<Rightarrow> real option \<Rightarrow> real option \<Rightarrow> Circle" where
  "Circle_scale self factor pivot_x pivot_y =
     (let self =
            (case (pivot_x, pivot_y) of
               (Some cx, Some cy) \<Rightarrow>
                 self\<lparr>Circle.center_x := cx + (Circle.center_x self - cx) * factor,
                      Circle.center_y := cy + (Circle.center_y self - cy) * factor\<rparr>
             | _ \<Rightarrow> self)
      in self\<lparr>Circle.radius := Circle.radius self * factor\<rparr>)"

definition Circle_rotate :: "Circle \<Rightarrow> real \<Rightarrow> real option \<Rightarrow> real option \<Rightarrow> Circle" where
  "Circle_rotate self angle pivot_x pivot_y =
     (case (pivot_x, pivot_y) of
        (Some cx, Some cy) \<Rightarrow>
          (let cos_a = cos angle;
               sin_a = sin angle;
               dx = Circle.center_x self - cx;
               dy = Circle.center_y self - cy
           in self\<lparr>Circle.center_x := cx + dx * cos_a - dy * sin_a,
                   Circle.center_y := cy + dx * sin_a + dy * cos_a\<rparr>)
      | _ \<Rightarrow> self)"

definition Circle_copy :: "Circle \<Rightarrow> Circle" where
  "Circle_copy self =
     (let new_circle = Circle_init (Circle.center_x self) (Circle.center_y self) (Circle.radius self)
      in new_circle\<lparr>line_color := line_color self, fill_color := fill_color self,
                    line_width := line_width self, line_style := line_style self\<rparr>)"

text \<open>
  \<^verbatim>\<open>Circle.shear\<close> ends with \<^verbatim>\<open>self.points = points; self.__class__ = Polygon\<close>: the object
  becomes a Polygon. The result is therefore a Polygon record that keeps the attributes of
  \<^verbatim>\<open>Shape\<close>; the attributes \<^verbatim>\<open>center_x\<close>, \<^verbatim>\<open>center_y\<close> and \<^verbatim>\<open>radius\<close> stay on the Python
  object, but no method of Polygon reads them.
\<close>

definition Circle_shear :: "Circle \<Rightarrow> real \<Rightarrow> real \<Rightarrow> Polygon" where
  "Circle_shear self shear_x shear_y =
     (let cx = Circle.center_x self; cy = Circle.center_y self; r = Circle.radius self;
          num_points = (36::nat);
          points =
            map (\<lambda>i. let theta = 2 * pi * real i / real num_points;
                          x = cx + r * cos theta;
                          y = cy + r * sin theta;
                          new_x = x + shear_x * y;
                          new_y = y + shear_y * x
                      in (new_x, new_y)) [0..<num_points]
      in \<lparr>selected = selected self, line_color = line_color self, fill_color = fill_color self,
          line_width = line_width self, line_style = line_style self,
          Polygon.points = points\<rparr>)"

subsection \<open>class Rectangle\<close>

record Rectangle = Shape +
  x1 :: real
  y1 :: real
  x2 :: real
  y2 :: real

definition Rectangle_init :: "real \<Rightarrow> real \<Rightarrow> real \<Rightarrow> real \<Rightarrow> Rectangle" where
  "Rectangle_init a b c d =
     \<lparr>selected = False, line_color = ''black'', fill_color = '''', line_width = 2,
      line_style = ''solid'',
      Rectangle.x1 = min a c, Rectangle.y1 = min b d,
      Rectangle.x2 = max a c, Rectangle.y2 = max b d\<rparr>"

definition Rectangle_contains_point :: "Rectangle \<Rightarrow> real \<Rightarrow> real \<Rightarrow> bool" where
  "Rectangle_contains_point self x y =
     (let margin = 5;
          x1 = Rectangle.x1 self; y1 = Rectangle.y1 self;
          x2 = Rectangle.x2 self; y2 = Rectangle.y2 self
      in ((x1 - margin \<le> x \<and> x \<le> x2 + margin \<and> y1 - margin \<le> y \<and> y \<le> y1 + margin) \<or>
          (x1 - margin \<le> x \<and> x \<le> x2 + margin \<and> y2 - margin \<le> y \<and> y \<le> y2 + margin) \<or>
          (x1 - margin \<le> x \<and> x \<le> x1 + margin \<and> y1 - margin \<le> y \<and> y \<le> y2 + margin) \<or>
          (x2 - margin \<le> x \<and> x \<le> x2 + margin \<and> y1 - margin \<le> y \<and> y \<le> y2 + margin)))"

definition Rectangle_get_bounds :: "Rectangle \<Rightarrow> real \<times> real \<times> real \<times> real" where
  "Rectangle_get_bounds self =
     (Rectangle.x1 self, Rectangle.y1 self, Rectangle.x2 self, Rectangle.y2 self)"

definition Rectangle_translate :: "Rectangle \<Rightarrow> real \<Rightarrow> real \<Rightarrow> Rectangle" where
  "Rectangle_translate self dx dy =
     self\<lparr>Rectangle.x1 := Rectangle.x1 self + dx, Rectangle.y1 := Rectangle.y1 self + dy,
          Rectangle.x2 := Rectangle.x2 self + dx, Rectangle.y2 := Rectangle.y2 self + dy\<rparr>"

definition Rectangle_scale ::
  "Rectangle \<Rightarrow> real \<Rightarrow> real option \<Rightarrow> real option \<Rightarrow> Rectangle" where
  "Rectangle_scale self factor pivot_x pivot_y =
     (let (cx, cy) =
            (case (pivot_x, pivot_y) of
               (Some cx, Some cy) \<Rightarrow> (cx, cy)
             | _ \<Rightarrow> ((Rectangle.x1 self + Rectangle.x2 self) / 2,
                     (Rectangle.y1 self + Rectangle.y2 self) / 2))
      in self\<lparr>Rectangle.x1 := cx + (Rectangle.x1 self - cx) * factor,
              Rectangle.y1 := cy + (Rectangle.y1 self - cy) * factor,
              Rectangle.x2 := cx + (Rectangle.x2 self - cx) * factor,
              Rectangle.y2 := cy + (Rectangle.y2 self - cy) * factor\<rparr>)"

text \<open>
  \<^verbatim>\<open>Rectangle.rotate\<close> rotates the four corners and stores the bounds of the rotated corners.
  \<^verbatim>\<open>min\<close> and \<^verbatim>\<open>max\<close> are applied to lists of four numbers, so their ValueError branch is
  never taken; it is kept in the result type all the same.
\<close>

definition Rectangle_rotate ::
  "Rectangle \<Rightarrow> real \<Rightarrow> real option \<Rightarrow> real option \<Rightarrow> py_error + Rectangle" where
  "Rectangle_rotate self angle pivot_x pivot_y =
     (let (cx, cy) =
            (case (pivot_x, pivot_y) of
               (Some cx, Some cy) \<Rightarrow> (cx, cy)
             | _ \<Rightarrow> ((Rectangle.x1 self + Rectangle.x2 self) / 2,
                     (Rectangle.y1 self + Rectangle.y2 self) / 2));
          points = [(Rectangle.x1 self, Rectangle.y1 self), (Rectangle.x2 self, Rectangle.y1 self),
                    (Rectangle.x2 self, Rectangle.y2 self), (Rectangle.x1 self, Rectangle.y2 self)];
          rotated_points = rotate_points angle cx cy points;
          xs = map fst rotated_points;
          ys = map snd rotated_points
      in case (py_min xs, py_min ys, py_max xs, py_max ys) of
           (Inr min_x, Inr min_y, Inr max_x, Inr max_y) \<Rightarrow>
             Inr (self\<lparr>Rectangle.x1 := min_x, Rectangle.y1 := min_y,
                       Rectangle.x2 := max_x, Rectangle.y2 := max_y\<rparr>)
         | _ \<Rightarrow> Inl ValueError)"

definition Rectangle_copy :: "Rectangle \<Rightarrow> Rectangle" where
  "Rectangle_copy self =
     (let new_rect = Rectangle_init (Rectangle.x1 self) (Rectangle.y1 self)
                                    (Rectangle.x2 self) (Rectangle.y2 self)
      in new_rect\<lparr>line_color := line_color self, fill_color := fill_color self,
                  line_width := line_width self, line_style := line_style self\<rparr>)"

definition Rectangle_shear :: "Rectangle \<Rightarrow> real \<Rightarrow> real \<Rightarrow> Polygon" where
  "Rectangle_shear self shear_x shear_y =
     (let x1 = Rectangle.x1 self; y1 = Rectangle.y1 self;
          x2 = Rectangle.x2 self; y2 = Rectangle.y2 self;
          points = [(x1, y1), (x2, y1), (x2, y2), (x1, y2)];
          sheared = shear_points shear_x shear_y points
      in \<lparr>selected = selected self, line_color = line_color self, fill_color = fill_color self,
          line_width = line_width self, line_style = line_style self,
          Polygon.points = sheared\<rparr>)"

subsection \<open>class Ellipse\<close>

record Ellipse = Shape +
  center_x :: real
  center_y :: real
  width :: real
  height :: real

definition Ellipse_init :: "real \<Rightarrow> real \<Rightarrow> real \<Rightarrow> real \<Rightarrow> Ellipse" where
  "Ellipse_init cx cy w h =
     \<lparr>selected = False, line_color = ''black'', fill_color = '''', line_width = 2,
      line_style = ''solid'', Ellipse.center_x = cx, Ellipse.center_y = cy,
      Ellipse.width = w, Ellipse.height = h\<rparr>"

definition Ellipse_contains_point :: "Ellipse \<Rightarrow> real \<Rightarrow> real \<Rightarrow> py_error + bool" where
  "Ellipse_contains_point self x y =
     (if Ellipse.width self \<le> 0 \<or> Ellipse.height self \<le> 0 then Inr False
      else
        (case py_truediv (x - Ellipse.center_x self) (Ellipse.width self / 2) of
           Inl e \<Rightarrow> Inl e
         | Inr dx \<Rightarrow>
             (case py_truediv (y - Ellipse.center_y self) (Ellipse.height self / 2) of
                Inl e \<Rightarrow> Inl e
              | Inr dy \<Rightarrow> Inr (dx * dx + dy * dy \<le> 1))))"

definition Ellipse_get_bounds :: "Ellipse \<Rightarrow> real \<times> real \<times> real \<times> real" where
  "Ellipse_get_bounds self =
     (Ellipse.center_x self - Ellipse.width self / 2,
      Ellipse.center_y self - Ellipse.height self / 2,
      Ellipse.center_x self + Ellipse.width self / 2,
      Ellipse.center_y self + Ellipse.height self / 2)"

definition Ellipse_translate :: "Ellipse \<Rightarrow> real \<Rightarrow> real \<Rightarrow> Ellipse" where
  "Ellipse_translate self dx dy =
     self\<lparr>Ellipse.center_x := Ellipse.center_x self + dx,
          Ellipse.center_y := Ellipse.center_y self + dy\<rparr>"

definition Ellipse_scale :: "Ellipse \<Rightarrow> real \<Rightarrow> real option \<Rightarrow> real option \<Rightarrow> Ellipse" where
  "Ellipse_scale self factor pivot_x pivot_y =
     (let self =
            (case (pivot_x, pivot_y) of
               (Some cx, Some cy) \<Rightarrow>
                 self\<lparr>Ellipse.center_x := cx + (Ellipse.center_x self - cx) * factor,
                      Ellipse.center_y := cy + (Ellipse.center_y self - cy) * factor\<rparr>
             | _ \<Rightarrow> self)
      in self\<lparr>Ellipse.width := Ellipse.width self * factor,
              Ellipse.height := Ellipse.height self * factor\<rparr>)"

definition Ellipse_rotate :: "Ellipse \<Rightarrow> real \<Rightarrow> real option \<Rightarrow> real option \<Rightarrow> Ellipse" where
  "Ellipse_rotate self angle pivot_x pivot_y =
     (case (pivot_x, pivot_y) of
        (Some cx, Some cy) \<Rightarrow>
          (let cos_a = cos angle;
               sin_a = sin angle;
               dx = Ellipse.center_x self - cx;
               dy = Ellipse.center_y self - cy
           in self\<lparr>Ellipse.center_x := cx + dx * cos_a - dy * sin_a,
                   Ellipse.center_y := cy + dx * sin_a + dy * cos_a\<rparr>)
      | _ \<Rightarrow> self)"

definition Ellipse_copy :: "Ellipse \<Rightarrow> Ellipse" where
  "Ellipse_copy self =
     (let new_ellipse = Ellipse_init (Ellipse.center_x self) (Ellipse.center_y self)
                                     (Ellipse.width self) (Ellipse.height self)
      in new_ellipse\<lparr>line_color := line_color self, fill_color := fill_color self,
                     line_width := line_width self, line_style := line_style self\<rparr>)"

definition Ellipse_shear :: "Ellipse \<Rightarrow> real \<Rightarrow> real \<Rightarrow> Polygon" where
  "Ellipse_shear self shear_x shear_y =
     (let cx = Ellipse.center_x self; cy = Ellipse.center_y self;
          rx = Ellipse.width self / 2; ry = Ellipse.height self / 2;
          num_points = (36::nat);
          points =
            map (\<lambda>i. let theta = 2 * pi * real i / real num_points;
                          x = cx + rx * cos theta;
                          y = cy + ry * sin theta;
                          new_x = x + shear_x * y;
                          new_y = y + shear_y * x
                      in (new_x, new_y)) [0..<num_points]
      in \<lparr>selected = selected self, line_color = line_color self, fill_color = fill_color self,
          line_width = line_width self, line_style = line_style self,
          Polygon.points = points\<rparr>)"

subsection \<open>class Triangle\<close>

record Triangle = Shape +
  points :: "point list"

definition Triangle_init :: "real \<Rightarrow> real \<Rightarrow> real \<Rightarrow> real \<Rightarrow> Triangle" where
  "Triangle_init a b c d =
     (let cx = (a + c) / 2;
          cy = (b + d) / 2;
          size = sqrt ((c - a) ^ 2 + (d - b) ^ 2) / 2
      in \<lparr>selected = False, line_color = ''black'', fill_color = '''', line_width = 2,
          line_style = ''solid'',
          Triangle.points = [(cx, cy - size),
                             (cx - size * 0.866, cy + size * 0.5),
                             (cx + size * 0.866, cy + size * 0.5)]\<rparr>)"

definition Triangle_get_bounds :: "Triangle \<Rightarrow> py_error + real \<times> real \<times> real \<times> real" where
  "Triangle_get_bounds self =
     (let xs = map fst (Triangle.points self); ys = map snd (Triangle.points self)
      in case (py_min xs, py_min ys, py_max xs, py_max ys) of
           (Inr min_x, Inr min_y, Inr max_x, Inr max_y) \<Rightarrow> Inr (min_x, min_y, max_x, max_y)
         | _ \<Rightarrow> Inl ValueError)"

definition Triangle_contains_point :: "Triangle \<Rightarrow> real \<Rightarrow> real \<Rightarrow> py_error + bool" where
  "Triangle_contains_point self x y =
     (let xs = map fst (Triangle.points self); ys = map snd (Triangle.points self)
      in case (py_min xs, py_max xs, py_min ys, py_max ys) of
           (Inr min_x, Inr max_x, Inr min_y, Inr max_y) \<Rightarrow>
             Inr (min_x - 5 \<le> x \<and> x \<le> max_x + 5 \<and> min_y - 5 \<le> y \<and> y \<le> max_y + 5)
         | _ \<Rightarrow> Inl ValueError)"

definition Triangle_translate :: "Triangle \<Rightarrow> real \<Rightarrow> real \<Rightarrow> Triangle" where
  "Triangle_translate self dx dy =
     self\<lparr>Triangle.points := translate_points dx dy (Triangle.points self)\<rparr>"

definition Triangle_scale ::
  "Triangle \<Rightarrow> real \<Rightarrow> real option \<Rightarrow> real option \<Rightarrow> py_error + Triangle" where
  "Triangle_scale self factor pivot_x pivot_y =
     (case (case (pivot_x, pivot_y) of
              (Some cx, Some cy) \<Rightarrow> Inr (cx, cy)
            | _ \<Rightarrow> points_mean (Triangle.points self)) of
        Inl e \<Rightarrow> Inl e
      | Inr (cx, cy) \<Rightarrow>
          Inr (self\<lparr>Triangle.points := scale_points factor cx cy (Triangle.points self)\<rparr>))"

definition Triangle_rotate ::
  "Triangle \<Rightarrow> real \<Rightarrow> real option \<Rightarrow> real option \<Rightarrow> py_error + Triangle" where
  "Triangle_rotate self angle pivot_x pivot_y =
     (case (case (pivot_x, pivot_y) of
              (Some cx, Some cy) \<Rightarrow> Inr (cx, cy)
            | _ \<Rightarrow> points_mean (Triangle.points self)) of
        Inl e \<Rightarrow> Inl e
      | Inr (cx, cy) \<Rightarrow>
          Inr (self\<lparr>Triangle.points := rotate_points angle cx cy (Triangle.points self)\<rparr>))"

definition Triangle_copy :: "Triangle \<Rightarrow> Triangle" where
  "Triangle_copy self =
     (let new_triangle = Triangle_init 0 0 0 0
      in new_triangle\<lparr>Triangle.points := Triangle.points self,
                      line_color := line_color self, fill_color := fill_color self,
                      line_width := line_width self, line_style := line_style self\<rparr>)"

definition Triangle_shear :: "Triangle \<Rightarrow> real \<Rightarrow> real \<Rightarrow> Triangle" where
  "Triangle_shear self shear_x shear_y =
     self\<lparr>Triangle.points := shear_points shear_x shear_y (Triangle.points self)\<rparr>"

subsection \<open>class Pentagon\<close>

record Pentagon = Shape +
  center_x :: real
  center_y :: real
  radius :: real
  points :: "point list"

text \<open>\<^verbatim>\<open>_generate_pentagon_points\<close> reads \<^verbatim>\<open>center_x\<close>, \<^verbatim>\<open>center_y\<close> and \<^verbatim>\<open>radius\<close> of
  \<^verbatim>\<open>self\<close>; they are its three arguments here.\<close>

definition generate_pentagon_points :: "real \<Rightarrow> real \<Rightarrow> real \<Rightarrow> point list" where
  "generate_pentagon_points cx cy r =
     map (\<lambda>i. let angle = real i * 2 * pi / 5 - pi / 2;
                   x = cx + r * cos angle;
                   y = cy + r * sin angle
               in (x, y)) [0..<5]"

definition Pentagon_init :: "real \<Rightarrow> real \<Rightarrow> real \<Rightarrow> Pentagon" where
  "Pentagon_init cx cy r =
     \<lparr>selected = False, line_color = ''black'', fill_color = '''', line_width = 2,
      line_style = ''solid'', Pentagon.center_x = cx, Pentagon.center_y = cy,
      Pentagon.radius = r, Pentagon.points = generate_pentagon_points cx cy r\<rparr>"

definition Pentagon_contains_point :: "Pentagon \<Rightarrow> real \<Rightarrow> real \<Rightarrow> bool" where
  "Pentagon_contains_point self x y =
     (let distance = sqrt ((x - Pentagon.center_x self) ^ 2 + (y - Pentagon.center_y self) ^ 2)
      in \<bar>distance - Pentagon.radius self\<bar> < 10)"

definition Pentagon_get_bounds :: "Pentagon \<Rightarrow> real \<times> real \<times> real \<times> real" where
  "Pentagon_get_bounds self =
     (Pentagon.center_x self - Pentagon.radius self, Pentagon.center_y self - Pentagon.radius self,
      Pentagon.center_x self + Pentagon.radius self, Pentagon.center_y self + Pentagon.radius self)"

definition Pentagon_translate :: "Pentagon \<Rightarrow> real \<Rightarrow> real \<Rightarrow> Pentagon" where
  "Pentagon_translate self dx dy =
     self\<lparr>Pentagon.center_x := Pentagon.center_x self + dx,
          Pentagon.center_y := Pentagon.center_y self + dy,
          Pentagon.points := translate_points dx dy (Pentagon.points self)\<rparr>"

definition Pentagon_scale :: "Pentagon \<Rightarrow> real \<Rightarrow> real option \<Rightarrow> real option \<Rightarrow> Pentagon" where
  "Pentagon_scale self factor pivot_x pivot_y =
     (let self =
            (case (pivot_x, pivot_y) of
               (Some cx, Some cy) \<Rightarrow>
                 self\<lparr>Pentagon.center_x := cx + (Pentagon.center_x self - cx) * factor,
                      Pentagon.center_y := cy + (Pentagon.center_y self - cy) * factor\<rparr>
             | _ \<Rightarrow> self);
          self = self\<lparr>Pentagon.radius := Pentagon.radius self * factor\<rparr>
      in self\<lparr>Pentagon.points :=
                generate_pentagon_points (Pentagon.center_x self) (Pentagon.center_y self)
                                         (Pentagon.radius self)\<rparr>)"

definition Pentagon_rotate :: "Pentagon \<Rightarrow> real \<Rightarrow> real option \<Rightarrow> real option \<Rightarrow> Pentagon" where
  "Pentagon_rotate self angle pivot_x pivot_y =
     (let self =
            (case (pivot_x, pivot_y) of
               (Some cx, Some cy) \<Rightarrow>
                 (let cos_a = cos angle;
                      sin_a = sin angle;
                      dx = Pentagon.center_x self - cx;
                      dy = Pentagon.center_y self - cy
                  in self\<lparr>Pentagon.center_x := cx + dx * cos_a - dy * sin_a,
                          Pentagon.center_y := cy + dx * sin_a + dy * cos_a\<rparr>)
             | _ \<Rightarrow> self)
      in self\<lparr>Pentagon.points :=
                generate_pentagon_points (Pentagon.center_x self) (Pentagon.center_y self)
                                         (Pentagon.radius self)\<rparr>)"

definition Pentagon_copy :: "Pentagon \<Rightarrow> Pentagon" where
  "Pentagon_copy self =
     (let new_pentagon = Pentagon_init (Pentagon.center_x self) (Pentagon.center_y self)
                                       (Pentagon.radius self)
      in new_pentagon\<lparr>line_color := line_color self, fill_color := fill_color self,
                      line_width := line_width self, line_style := line_style self\<rparr>)"

definition Pentagon_shear :: "Pentagon \<Rightarrow> real \<Rightarrow> real \<Rightarrow> Pentagon" where
  "Pentagon_shear self shear_x shear_y =
     self\<lparr>Pentagon.points := shear_points shear_x shear_y (Pentagon.points self)\<rparr>"

subsection \<open>class Hexagon\<close>

record Hexagon = Shape +
  center_x :: real
  center_y :: real
  radius :: real
  points :: "point list"

definition generate_hexagon_points :: "real \<Rightarrow> real \<Rightarrow> real \<Rightarrow> point list" where
  "generate_hexagon_points cx cy r =
     map (\<lambda>i. let angle = real i * 2 * pi / 6;
                   x = cx + r * cos angle;
                   y = cy + r * sin angle
               in (x, y)) [0..<6]"

definition Hexagon_init :: "real \<Rightarrow> real \<Rightarrow> real \<Rightarrow> Hexagon" where
  "Hexagon_init cx cy r =
     \<lparr>selected = False, line_color = ''black'', fill_color = '''', line_width = 2,
      line_style = ''solid'', Hexagon.center_x = cx, Hexagon.center_y = cy,
      Hexagon.radius = r, Hexagon.points = generate_hexagon_points cx cy r\<rparr>"

definition Hexagon_contains_point :: "Hexagon \<Rightarrow> real \<Rightarrow> real \<Rightarrow> bool" where
  "Hexagon_contains_point self x y =
     (let distance = sqrt ((x - Hexagon.center_x self) ^ 2 + (y - Hexagon.center_y self) ^ 2)
      in \<bar>distance - Hexagon.radius self\<bar> < 10)"

definition Hexagon_get_bounds :: "Hexagon \<Rightarrow> real \<times> real \<times> real \<times> real" where
  "Hexagon_get_bounds self =
     (Hexagon.center_x self - Hexagon.radius self, Hexagon.center_y self - Hexagon.radius self,
      Hexagon.center_x self + Hexagon.radius self, Hexagon.center_y self + Hexagon.radius self)"

definition Hexagon_translate :: "Hexagon \<Rightarrow> real \<Rightarrow> real \<Rightarrow> Hexagon" where
  "Hexagon_translate self dx dy =
     self\<lparr>Hexagon.center_x := Hexagon.center_x self + dx,
          Hexagon.center_y := Hexagon.center_y self + dy,
          Hexagon.points := translate_points dx dy (Hexagon.points self)\<rparr>"

definition Hexagon_scale :: "Hexagon \<Rightarrow> real \<Rightarrow> real option \<Rightarrow> real option \<Rightarrow> Hexagon" where
  "Hexagon_scale self factor pivot_x pivot_y =
     (let self =
            (case (pivot_x, pivot_y) of
               (Some cx, Some cy) \<Rightarrow>
                 self\<lparr>Hexagon.center_x := cx + (Hexagon.center_x self - cx) * factor,
                      Hexagon.center_y := cy + (Hexagon.center_y self - cy) * factor\<rparr>
             | _ \<Rightarrow> self);
          self = self\<lparr>Hexagon.radius := Hexagon.radius self * factor\<rparr>
      in self\<lparr>Hexagon.points :=
                generate_hexagon_points (Hexagon.center_x self) (Hexagon.center_y self)
                                        (Hexagon.radius self)\<rparr>)"

definition Hexagon_rotate :: "Hexagon \<Rightarrow> real \<Rightarrow> real option \<Rightarrow> real option \<Rightarrow> Hexagon" where
  "Hexagon_rotate self angle pivot_x pivot_y =
     (let self =
            (case (pivot_x, pivot_y) of
               (Some cx, Some cy) \<Rightarrow>
                 (let cos_a = cos angle;
                      sin_a = sin angle;
                      dx = Hexagon.center_x self - cx;
                      dy = Hexagon.center_y self - cy
                  in self\<lparr>Hexagon.center_x := cx + dx * cos_a - dy * sin_a,
                          Hexagon.center_y := cy + dx * sin_a + dy * cos_a\<rparr>)
             | _ \<Rightarrow> self)
      in self\<lparr>Hexagon.points :=
                generate_hexagon_points (Hexagon.center_x self) (Hexagon.center_y self)
                                        (Hexagon.radius self)\<rparr>)"

definition Hexagon_copy :: "Hexagon \<Rightarrow> Hexagon" where
  "Hexagon_copy self =
     (let new_hexagon = Hexagon_init (Hexagon.center_x self) (Hexagon.center_y self)
                                     (Hexagon.radius self)
      in new_hexagon\<lparr>line_color := line_color self, fill_color := fill_color self,
                     line_width := line_width self, line_style := line_style self\<rparr>)"

definition Hexagon_shear :: "Hexagon \<Rightarrow> real \<Rightarrow> real \<Rightarrow> Hexagon" where
  "Hexagon_shear self shear_x shear_y =
     self\<lparr>Hexagon.points := shear_points shear_x shear_y (Hexagon.points self)\<rparr>"

subsection \<open>class Polygon: the methods\<close>

definition Polygon_get_bounds :: "Polygon \<Rightarrow> py_error + real \<times> real \<times> real \<times> real" where
  "Polygon_get_bounds self =
     (if Polygon.points self = [] then Inr (0, 0, 0, 0)
      else
        (let xs = map fst (Polygon.points self); ys = map snd (Polygon.points self)
         in case (py_min xs, py_min ys, py_max xs, py_max ys) of
              (Inr min_x, Inr min_y, Inr max_x, Inr max_y) \<Rightarrow> Inr (min_x, min_y, max_x, max_y)
            | _ \<Rightarrow> Inl ValueError))"

definition Polygon_translate :: "Polygon \<Rightarrow> real \<Rightarrow> real \<Rightarrow> Polygon" where
  "Polygon_translate self dx dy =
     self\<lparr>Polygon.points := translate_points dx dy (Polygon.points self)\<rparr>"

definition Polygon_scale ::
  "Polygon \<Rightarrow> real \<Rightarrow> real option \<Rightarrow> real option \<Rightarrow> py_error + Polygon" where
  "Polygon_scale self factor pivot_x pivot_y =
     (case (case (pivot_x, pivot_y) of
              (Some cx, Some cy) \<Rightarrow> Inr (cx, cy)
            | _ \<Rightarrow> points_mean (Polygon.points self)) of
        Inl e \<Rightarrow> Inl e
      | Inr (cx, cy) \<Rightarrow>
          Inr (self\<lparr>Polygon.points := scale_points factor cx cy (Polygon.points self)\<rparr>))"

definition Polygon_rotate ::
  "Polygon \<Rightarrow> real \<Rightarrow> real option \<Rightarrow> real option \<Rightarrow> py_error + Polygon" where
  "Polygon_rotate self angle pivot_x pivot_y =
     (case (case (pivot_x, pivot_y) of
              (Some cx, Some cy) \<Rightarrow> Inr (cx, cy)
            | _ \<Rightarrow> points_mean (Polygon.points self)) of
        Inl e \<Rightarrow> Inl e
      | Inr (cx, cy) \<Rightarrow>
          Inr (self\<lparr>Polygon.points := rotate_points angle cx cy (Polygon.points self)\<rparr>))"

definition Polygon_copy :: "Polygon \<Rightarrow> Polygon" where
  "Polygon_copy self =
     (let new_polygon = Polygon_init (Polygon.points self)
      in new_polygon\<lparr>line_color := line_color self, fill_color := fill_color self,
                     line_width := line_width self, line_style := line_style self\<rparr>)"

definition Polygon_shear :: "Polygon \<Rightarrow> real \<Rightarrow> real \<Rightarrow> Polygon" where
  "Polygon_shear self shear_x shear_y =
     self\<lparr>Polygon.points := shear_points shear_x shear_y (Polygon.points self)\<rparr>"

subsection \<open>Objects and method dispatch\<close>

text \<open>
  A shape object is a value of one of the eight classes; a method call dispatches on the
  class the object has at the time of the call. As \<^verbatim>\<open>shear\<close> on a Circle, a Rectangle or an
  Ellipse assigns \<^verbatim>\<open>self.__class__ = Polygon\<close>, the object is a Polygon from then on.
\<close>

datatype shape =
    Line_obj Line
  | Circle_obj Circle
  | Rectangle_obj Rectangle
  | Ellipse_obj Ellipse
  | Triangle_obj Triangle
  | Pentagon_obj Pentagon
  | Hexagon_obj Hexagon
  | Polygon_obj Polygon

text \<open>\<^verbatim>\<open>type(shape).__name__\<close>, as canvas.py prints it.\<close>

fun class_name :: "shape \<Rightarrow> string" where
  "class_name (Line_obj _) = ''Line''"
| "class_name (Circle_obj _) = ''Circle''"
| "class_name (Rectangle_obj _) = ''Rectangle''"
| "class_name (Ellipse_obj _) = ''Ellipse''"
| "class_name (Triangle_obj _) = ''Triangle''"
| "class_name (Pentagon_obj _) = ''Pentagon''"
| "class_name (Hexagon_obj _) = ''Hexagon''"
| "class_name (Polygon_obj _) = ''Polygon''"

fun translate :: "shape \<Rightarrow> real \<Rightarrow> real \<Rightarrow> shape" where
  "translate (Line_obj s) dx dy = Line_obj (Line_translate s dx dy)"
| "translate (Circle_obj s) dx dy = Circle_obj (Circle_translate s dx dy)"
| "translate (Rectangle_obj s) dx dy = Rectangle_obj (Rectangle_translate s dx dy)"
| "translate (Ellipse_obj s) dx dy = Ellipse_obj (Ellipse_translate s dx dy)"
| "translate (Triangle_obj s) dx dy = Triangle_obj (Triangle_translate s dx dy)"
| "translate (Pentagon_obj s) dx dy = Pentagon_obj (Pentagon_translate s dx dy)"
| "translate (Hexagon_obj s) dx dy = Hexagon_obj (Hexagon_translate s dx dy)"
| "translate (Polygon_obj s) dx dy = Polygon_obj (Polygon_translate s dx dy)"

fun scale :: "shape \<Rightarrow> real \<Rightarrow> real option \<Rightarrow> real option \<Rightarrow> py_error + shape" where
  "scale (Line_obj s) f px py = Inr (Line_obj (Line_scale s f px py))"
| "scale (Circle_obj s) f px py = Inr (Circle_obj (Circle_scale s f px py))"
| "scale (Rectangle_obj s) f px py = Inr (Rectangle_obj (Rectangle_scale s f px py))"
| "scale (Ellipse_obj s) f px py = Inr (Ellipse_obj (Ellipse_scale s f px py))"
| "scale (Triangle_obj s) f px py = map_sum id Triangle_obj (Triangle_scale s f px py)"
| "scale (Pentagon_obj s) f px py = Inr (Pentagon_obj (Pentagon_scale s f px py))"
| "scale (Hexagon_obj s) f px py = Inr (Hexagon_obj (Hexagon_scale s f px py))"
| "scale (Polygon_obj s) f px py = map_sum id Polygon_obj (Polygon_scale s f px py)"

fun rotate :: "shape \<Rightarrow> real \<Rightarrow> real option \<Rightarrow> real option \<Rightarrow> py_error + shape" where
  "rotate (Line_obj s) a px py = Inr (Line_obj (Line_rotate s a px py))"
| "rotate (Circle_obj s) a px py = Inr (Circle_obj (Circle_rotate s a px py))"
| "rotate (Rectangle_obj s) a px py = map_sum id Rectangle_obj (Rectangle_rotate s a px py)"
| "rotate (Ellipse_obj s) a px py = Inr (Ellipse_obj (Ellipse_rotate s a px py))"
| "rotate (Triangle_obj s) a px py = map_sum id Triangle_obj (Triangle_rotate s a px py)"
| "rotate (Pentagon_obj s) a px py = Inr (Pentagon_obj (Pentagon_rotate s a px py))"
| "rotate (Hexagon_obj s) a px py = Inr (Hexagon_obj (Hexagon_rotate s a px py))"
| "rotate (Polygon_obj s) a px py = map_sum id Polygon_obj (Polygon_rotate s a px py)"

fun shear :: "shape \<Rightarrow> real \<Rightarrow> real \<Rightarrow> shape" where
  "shear (Line_obj s) sx sy = Line_obj (Line_shear s sx sy)"
| "shear (Circle_obj s) sx sy = Polygon_obj (Circle_shear s sx sy)"
| "shear (Rectangle_obj s) sx sy = Polygon_obj (Rectangle_shear s sx sy)"
| "shear (Ellipse_obj s) sx sy = Polygon_obj (Ellipse_shear s sx sy)"
| "shear (Triangle_obj s) sx sy = Triangle_obj (Triangle_shear s sx sy)"
| "shear (Pentagon_obj s) sx sy = Pentagon_obj (Pentagon_shear s sx sy)"
| "shear (Hexagon_obj s) sx sy = Hexagon_obj (Hexagon_shear s sx sy)"
| "shear (Polygon_obj s) sx sy = Polygon_obj (Polygon_shear s sx sy)"

fun copy :: "shape \<Rightarrow> shape" where
  "copy (Line_obj s) = Line_obj (Line_copy s)"
| "copy (Circle_obj s) = Circle_obj (Circle_copy s)"
| "copy (Rectangle_obj s) = Rectangle_obj (Rectangle_copy s)"
| "copy (Ellipse_obj s) = Ellipse_obj (Ellipse_copy s)"
| "copy (Triangle_obj s) = Triangle_obj (Triangle_copy s)"
| "copy (Pentagon_obj s) = Pentagon_obj (Pentagon_copy s)"
| "copy (Hexagon_obj s) = Hexagon_obj (Hexagon_copy s)"
| "copy (Polygon_obj s) = Polygon_obj (Polygon_copy s)"

text \<open>
  The capability query of \<^verbatim>\<open>PaintApp.shear_transform\<close> in main.py is
  \<^verbatim>\<open>hasattr(self.selected_shape, 'shear')\<close>. The attribute is looked up on the class of the
  object; every class defines \<^verbatim>\<open>shear\<close> (and \<^verbatim>\<open>Shape\<close> has a default), so the list of the
  classes that have it is the list of all eight.
\<close>

definition classes_with_shear :: "string list" where
  "classes_with_shear =
     [''Line'', ''Circle'', ''Rectangle'', ''Ellipse'', ''Triangle'', ''Pentagon'',
      ''Hexagon'', ''Polygon'']"

definition hasattr_shear :: "shape \<Rightarrow> bool" where
  "hasattr_shear s = (class_name s \<in> set classes_with_shear)"

text \<open>
  \<^verbatim>\<open>shear_transform\<close> after the two dialogs: the shear is applied when the query succeeds,
  otherwise the shape is left alone and the user is told (None here).
\<close>

definition shear_transform :: "shape \<Rightarrow> real \<Rightarrow> real \<Rightarrow> shape option" where
  "shear_transform selected_shape shear_x shear_y =
     (if hasattr_shear selected_shape then Some (shear selected_shape shear_x shear_y) else None)"

subsection \<open>The factory of canvas.py\<close>

text \<open>\<^verbatim>\<open>DrawingCanvas.create_shape\<close>, with \<^verbatim>\<open>self.current_tool\<close> as the first argument.\<close>

definition create_shape :: "string \<Rightarrow> real \<Rightarrow> real \<Rightarrow> real \<Rightarrow> real \<Rightarrow> shape option" where
  "create_shape current_tool a b c d =
     (if current_tool = ''line'' then Some (Line_obj (Line_init a b c d))
      else if current_tool = ''circle'' then
        (let r = sqrt ((c - a) ^ 2 + (d - b) ^ 2) in Some (Circle_obj (Circle_init a b r)))
      else if current_tool = ''rectangle'' then Some (Rectangle_obj (Rectangle_init a b c d))
      else if current_tool = ''ellipse'' then
        (let w = \<bar>c - a\<bar>; h = \<bar>d - b\<bar>; cx = (a + c) / 2; cy = (b + d) / 2
         in Some (Ellipse_obj (Ellipse_init cx cy w h)))
      else if current_tool = ''triangle'' then Some (Triangle_obj (Triangle_init a b c d))
      else if current_tool = ''pentagon'' then
        (let r = sqrt ((c - a) ^ 2 + (d - b) ^ 2) in Some (Pentagon_obj (Pentagon_init a b r)))
      else if current_tool = ''hexagon'' then
        (let r = sqrt ((c - a) ^ 2 + (d - b) ^ 2) in Some (Hexagon_obj (Hexagon_init a b r)))
      else None)"

subsection \<open>What the specification says, for comparison\<close>

text \<open>
  The specification's rotation, \<open>p' = pivot + R(angle)(p - pivot)\<close>, with \<open>R(angle)\<close> the
  rotation matrix \<open>((cos, -sin), (sin, cos))\<close>.
\<close>

definition spec_rotate_point :: "real \<Rightarrow> point \<Rightarrow> point \<Rightarrow> point" where
  "spec_rotate_point angle pivot p =
     (fst pivot + (cos angle * (fst p - fst pivot) - sin angle * (snd p - snd pivot)),
      snd pivot + (sin angle * (fst p - fst pivot) + cos angle * (snd p - snd pivot)))"

text \<open>
  The specification's triangle factory: the drag start \<open>(a, b)\<close> is the centre, the size is half
  the drag distance, the top vertex is directly above the centre and the other two are at the
  offsets \<open>(\<plusminus>size * 0.866, size * 0.5)\<close>.
\<close>

definition spec_triangle_points :: "real \<Rightarrow> real \<Rightarrow> real \<Rightarrow> real \<Rightarrow> point list" where
  "spec_triangle_points a b c d =
     (let size = sqrt ((c - a) ^ 2 + (d - b) ^ 2) / 2
      in [(a, b - size), (a - size * 0.866, b + size * 0.5), (a + size * 0.866, b + size * 0.5)])"

text \<open>
  A Pentagon or Hexagon is in step when its point list is the one its centre and radius
  generate. The constructors establish this, \<^verbatim>\<open>translate\<close>, \<^verbatim>\<open>scale\<close> and \<^verbatim>\<open>rotate\<close> keep it,
  and \<^verbatim>\<open>shear\<close> is the one method that breaks it.
\<close>

definition Pentagon_in_step :: "Pentagon \<Rightarrow> bool" where
  "Pentagon_in_step self =
     (Pentagon.points self =
        generate_pentagon_points (Pentagon.center_x self) (Pentagon.center_y self)
                                 (Pentagon.radius self))"

definition Hexagon_in_step :: "Hexagon \<Rightarrow> bool" where
  "Hexagon_in_step self =
     (Hexagon.points self =
        generate_hexagon_points (Hexagon.center_x self) (Hexagon.center_y self)
                                (Hexagon.radius self))"

subsection \<open>Sequences of transform calls\<close>

text \<open>
  The states an object can reach: the user interface calls the four transform methods on the
  selected object, one call after the other (\<^verbatim>\<open>translate_xy\<close>, the scale and rotate dialogs,
  \<^verbatim>\<open>shear_transform\<close>). A call that raises ends the sequence.
\<close>

datatype transform =
    Translate real real
  | Scale real "real option" "real option"
  | Rotate real "real option" "real option"
  | Shear real real

fun apply_transform :: "shape \<Rightarrow> transform \<Rightarrow> py_error + shape" where
  "apply_transform s (Translate dx dy) = Inr (translate s dx dy)"
| "apply_transform s (Scale f px py) = scale s f px py"
| "apply_transform s (Rotate a px py) = rotate s a px py"
| "apply_transform s (Shear sx sy) = Inr (shear s sx sy)"

fun apply_transforms :: "shape \<Rightarrow> transform list \<Rightarrow> py_error + shape" where
  "apply_transforms s [] = Inr s"
| "apply_transforms s (t # ts) =
     (case apply_transform s t of Inl e \<Rightarrow> Inl e | Inr s' \<Rightarrow> apply_transforms s' ts)"

section \<open>Hit-testing on degenerate geometry\<close>

lemma Line_contains_point_returns: "\<exists>b. Line_contains_point l x y = Inr b"
  by (simp add: Line_contains_point_def py_truediv_def Let_def)

lemma Line_contains_point_zero_length:
  assumes "Line.x1 l = Line.x2 l" and "Line.y1 l = Line.y2 l"
  shows "Line_contains_point l x y = Inr (sqrt ((x - Line.x1 l) ^ 2 + (y - Line.y1 l) ^ 2) < 5)"
  using assms by (simp add: Line_contains_point_def Let_def)

lemma Ellipse_contains_point_returns: "\<exists>b. Ellipse_contains_point e x y = Inr b"
  by (auto simp add: Ellipse_contains_point_def py_truediv_def)

lemma Ellipse_contains_point_degenerate:
  "Ellipse.width e \<le> 0 \<or> Ellipse.height e \<le> 0 \<Longrightarrow> Ellipse_contains_point e x y = Inr False"
  by (auto simp add: Ellipse_contains_point_def)

text \<open>
  Claim C8. \<^verbatim>\<open>contains_point\<close> never raises on degenerate geometry. For every Line and every
  query point it returns a truth value; when the two endpoints coincide, the value is the
  fallback test "distance from the query point to the endpoint is below 5". For every Ellipse
  and every query point it returns a truth value; when the width or the height is at most 0,
  the value is false.
\<close>

theorem C8_contains_point_degenerate:
  "(\<exists>b. Line_contains_point l x y = Inr b) \<and>
   (Line.x1 l = Line.x2 l \<and> Line.y1 l = Line.y2 l \<longrightarrow>
      Line_contains_point l x y = Inr (sqrt ((x - Line.x1 l) ^ 2 + (y - Line.y1 l) ^ 2) < 5)) \<and>
   (\<exists>b. Ellipse_contains_point e x' y' = Inr b) \<and>
   (Ellipse.width e \<le> 0 \<or> Ellipse.height e \<le> 0 \<longrightarrow>
      Ellipse_contains_point e x' y' = Inr False)"
  using Line_contains_point_returns [of l x y] Line_contains_point_zero_length [of l x y]
    Ellipse_contains_point_returns [of e x' y'] Ellipse_contains_point_degenerate [of e x' y']
  by blast

theorem C8_contains_point_degenerate_witness:
  "Line_contains_point (Line_init 3 4 3 4) 3 7 = Inr True \<and>
   Ellipse_contains_point (Ellipse_init 0 0 0 10) 1 1 = Inr False"
  using C8_contains_point_degenerate [of "Line_init 3 4 3 4" 3 7 "Ellipse_init 0 0 0 10" 1 1]
  by (simp add: Line_init_def Ellipse_init_def)

section \<open>The radius of a Circle\<close>

text \<open>
  Claim C9, as stated: a Circle with radius at least 0 keeps a radius at least 0 under scale with
  any factor. It fails for the unit circle scaled by -1 about its own centre.
\<close>

theorem C9_negative_factor_counterexample:
  "\<not> (0 \<le> Circle.radius (Circle_init 0 0 1) \<longrightarrow>
      0 \<le> Circle.radius (Circle_scale (Circle_init 0 0 1) (- 1) None None))"
  by (simp add: Circle_init_def Circle_scale_def)

text \<open>
  Claim C9, amended. For every Circle whose radius is at least 0, \<^verbatim>\<open>translate\<close> and \<^verbatim>\<open>rotate\<close>
  leave the radius unchanged, \<^verbatim>\<open>scale\<close> multiplies it by the factor, and so the radius stays at
  least 0 after \<^verbatim>\<open>scale\<close> with any factor that is at least 0.
\<close>

theorem C9_radius_nonnegative:
  "0 \<le> Circle.radius c \<Longrightarrow>
     Circle.radius (Circle_translate c dx dy) = Circle.radius c \<and>
     Circle.radius (Circle_rotate c a px py) = Circle.radius c \<and>
     Circle.radius (Circle_scale c f px py) = Circle.radius c * f \<and>
     (0 \<le> f \<longrightarrow> 0 \<le> Circle.radius (Circle_scale c f px py))"
  by (simp add: Circle_translate_def Circle_rotate_def Circle_scale_def Let_def
       split: option.splits)

theorem C9_radius_nonnegative_witness:
  "0 \<le> Circle.radius (Circle_init 0 0 1) \<and> (0::real) \<le> 2 \<and>
   Circle.radius (Circle_translate (Circle_init 0 0 1) 5 5) = 1 \<and>
   Circle.radius (Circle_rotate (Circle_init 0 0 1) pi (Some 3) (Some 4)) = 1 \<and>
   Circle.radius (Circle_scale (Circle_init 0 0 1) 2 (Some 3) (Some 4)) = 2"
  using C9_radius_nonnegative [of "Circle_init 0 0 1" 5 5 pi "Some 3" "Some 4" 2]
  by (simp add: Circle_init_def)

section \<open>The default centre of an empty Polygon\<close>

text \<open>
  Claim C10. For a Polygon whose point list is empty, \<^verbatim>\<open>scale\<close> and \<^verbatim>\<open>rotate\<close> raise
  ZeroDivisionError when the pivot is omitted (also when only one of its two coordinates is
  given), and return normally, leaving the empty Polygon as it is, when both coordinates of the
  pivot are given.
\<close>

theorem C10_empty_polygon_default_pivot:
  "Polygon.points p = [] \<Longrightarrow>
     Polygon_scale p f None None = Inl ZeroDivisionError \<and>
     Polygon_rotate p a None None = Inl ZeroDivisionError \<and>
     Polygon_scale p f (Some cx) None = Inl ZeroDivisionError \<and>
     Polygon_scale p f None (Some cy) = Inl ZeroDivisionError \<and>
     Polygon_rotate p a (Some cx) None = Inl ZeroDivisionError \<and>
     Polygon_rotate p a None (Some cy) = Inl ZeroDivisionError \<and>
     Polygon_scale p f (Some cx) (Some cy) = Inr p \<and>
     Polygon_rotate p a (Some cx) (Some cy) = Inr p"
  by (simp add: Polygon_scale_def Polygon_rotate_def points_mean_def py_truediv_def
        scale_points_def rotate_points_def)

theorem C10_empty_polygon_default_pivot_witness:
  "Polygon.points (Polygon_init []) = [] \<and>
   Polygon_scale (Polygon_init []) 2 None None = Inl ZeroDivisionError \<and>
   Polygon_rotate (Polygon_init []) 1 None None = Inl ZeroDivisionError \<and>
   Polygon_scale (Polygon_init []) 2 (Some 3) (Some 4) = Inr (Polygon_init []) \<and>
   Polygon_rotate (Polygon_init []) 1 (Some 3) (Some 4) = Inr (Polygon_init [])"
  using C10_empty_polygon_default_pivot [of "Polygon_init []" 2 1 3 4]
  by (simp add: Polygon_init_def)

section \<open>The triangle factory\<close>

text \<open>
  Claim C5, as stated: the triangle is centred on the drag start. For the drag from (0, 0) to
  (2, 0) the specification's triangle has its top vertex at (0, -1); \<^verbatim>\<open>Triangle.__init__\<close>
  puts it at (1, -1), above the midpoint of the drag.
\<close>

theorem C5_triangle_center_counterexample:
  "Triangle.points (Triangle_init 0 0 2 0) \<noteq> spec_triangle_points 0 0 2 0"
  by (simp add: Triangle_init_def spec_triangle_points_def Let_def)

text \<open>
  Claim C5, amended. For every pair of drag points \<open>(a, b)\<close>, \<open>(c, d)\<close> the factory builds a
  Triangle whose centre is the midpoint of the two drag points and whose size is half the
  Euclidean drag distance: the top vertex is directly above the centre, at distance size, and
  the other two vertices are at the offsets \<open>(\<plusminus>size * 0.866, size * 0.5)\<close> from the centre.
\<close>

theorem C5_triangle_factory:
  "\<exists>t. create_shape ''triangle'' a b c d = Some (Triangle_obj t) \<and>
       Triangle.points t =
         (let cx = (a + c) / 2; cy = (b + d) / 2;
              size = sqrt ((c - a) ^ 2 + (d - b) ^ 2) / 2
          in [(cx, cy - size),
              (cx - size * 0.866, cy + size * 0.5),
              (cx + size * 0.866, cy + size * 0.5)])"
  by (simp add: create_shape_def Triangle_init_def Let_def)

section \<open>The rectangle scenario\<close>

text \<open>
  Claim C6, as stated: after \<^verbatim>\<open>Rectangle(10, 10, 50, 50)\<close>, \<^verbatim>\<open>translate(5, 5)\<close> and a rotation
  by 90 degrees about (30, 30), the bounding box is (10, 10, 50, 50). It is not: the translated
  rectangle is centred on (35, 35), not on the pivot.
\<close>

theorem C6_rectangle_scenario_counterexample:
  "map_sum id Rectangle_get_bounds
     (Rectangle_rotate (Rectangle_translate (Rectangle_init 10 10 50 50) 5 5)
        (pi / 2) (Some 30) (Some 30))
   \<noteq> Inr (10, 10, 50, 50)"
  by (simp add: Rectangle_get_bounds_def Rectangle_init_def Rectangle_translate_def
        Rectangle_rotate_def rotate_points_def Let_def)

text \<open>
  Claim C6, amended. Creating a Rectangle from (10, 10)-(50, 50) yields the bounding box
  (10, 10, 50, 50); then \<^verbatim>\<open>translate(5, 5)\<close> yields (15, 15, 55, 55); then \<^verbatim>\<open>rotate\<close> by 90
  degrees about the pivot (30, 30) returns normally and yields the axis-aligned bounding box of
  the four rotated corners (45, 15), (45, 55), (5, 55), (5, 15), which is (5, 15, 45, 55).
\<close>

theorem C6_rectangle_scenario:
  "Rectangle_get_bounds (Rectangle_init 10 10 50 50) = (10, 10, 50, 50) \<and>
   Rectangle_get_bounds (Rectangle_translate (Rectangle_init 10 10 50 50) 5 5)
     = (15, 15, 55, 55) \<and>
   rotate_points (pi / 2) 30 30 [(15, 15), (55, 15), (55, 55), (15, 55)]
     = [(45, 15), (45, 55), (5, 55), (5, 15)] \<and>
   map_sum id Rectangle_get_bounds
     (Rectangle_rotate (Rectangle_translate (Rectangle_init 10 10 50 50) 5 5)
        (pi / 2) (Some 30) (Some 30))
     = Inr (5, 15, 45, 55)"
  by (simp add: Rectangle_get_bounds_def Rectangle_init_def Rectangle_translate_def
        Rectangle_rotate_def rotate_points_def Let_def)

section \<open>Shearing a Circle\<close>

lemma points_mean_nonempty: "ps \<noteq> [] \<Longrightarrow> \<exists>m. points_mean ps = Inr m"
  by (simp add: points_mean_def py_truediv_def Let_def)

lemma length_scale_points: "length (scale_points f cx cy ps) = length ps"
  by (simp add: scale_points_def)

lemma length_rotate_points: "length (rotate_points a cx cy ps) = length ps"
  by (simp add: rotate_points_def Let_def)

lemma length_shear_points: "length (shear_points sx sy ps) = length ps"
  by (simp add: shear_points_def)

lemma length_translate_points: "length (translate_points dx dy ps) = length ps"
  by (simp add: translate_points_def)

lemma Polygon_scale_nonempty:
  assumes "Polygon.points p \<noteq> []"
  shows "\<exists>q. Polygon_scale p f px py = Inr q \<and>
             length (Polygon.points q) = length (Polygon.points p)"
proof -
  obtain m where "points_mean (Polygon.points p) = Inr m"
    using points_mean_nonempty [OF assms] by blast
  then show ?thesis
    by (cases m) (auto simp add: Polygon_scale_def length_scale_points split: option.splits)
qed

lemma Polygon_rotate_nonempty:
  assumes "Polygon.points p \<noteq> []"
  shows "\<exists>q. Polygon_rotate p a px py = Inr q \<and>
             length (Polygon.points q) = length (Polygon.points p)"
proof -
  obtain m where "points_mean (Polygon.points p) = Inr m"
    using points_mean_nonempty [OF assms] by blast
  then show ?thesis
    by (cases m) (auto simp add: Polygon_rotate_def length_rotate_points split: option.splits)
qed

text \<open>No transform call takes a Polygon with points out of the class Polygon, changes the
  number of its points, or raises.\<close>

lemma Polygon_apply_transform:
  assumes "Polygon.points p \<noteq> []"
  shows "\<exists>q. apply_transform (Polygon_obj p) t = Inr (Polygon_obj q) \<and>
             length (Polygon.points q) = length (Polygon.points p)"
proof (cases t)
  case (Translate dx dy)
  then show ?thesis by (simp add: Polygon_translate_def length_translate_points)
next
  case (Scale f px py)
  then show ?thesis using Polygon_scale_nonempty [OF assms, of f px py] by auto
next
  case (Rotate a px py)
  then show ?thesis using Polygon_rotate_nonempty [OF assms, of a px py] by auto
next
  case (Shear sx sy)
  then show ?thesis by (simp add: Polygon_shear_def length_shear_points)
qed

lemma Polygon_apply_transforms:
  "Polygon.points p \<noteq> [] \<Longrightarrow>
   \<exists>q. apply_transforms (Polygon_obj p) ts = Inr (Polygon_obj q) \<and>
       length (Polygon.points q) = length (Polygon.points p)"
proof (induction ts arbitrary: p)
  case Nil
  then show ?case by simp
next
  case (Cons t ts)
  obtain q where q: "apply_transform (Polygon_obj p) t = Inr (Polygon_obj q)"
    and len: "length (Polygon.points q) = length (Polygon.points p)"
    using Polygon_apply_transform [OF Cons.prems] by blast
  from len Cons.prems have "Polygon.points q \<noteq> []" by auto
  from Cons.IH [OF this] q len show ?case by auto
qed

lemma Circle_shear_points:
  "Polygon.points (Circle_shear c sx sy) =
     map (\<lambda>i. let x = Circle.center_x c + Circle.radius c * cos (2 * pi * real i / 36);
                   y = Circle.center_y c + Circle.radius c * sin (2 * pi * real i / 36)
               in (x + sx * y, y + sy * x)) [0..<36]"
  by (simp add: Circle_shear_def Let_def)

text \<open>
  Claim C7. For every Circle and all shear coefficients, \<^verbatim>\<open>shear\<close> turns the object into a
  Polygon with exactly 36 points: point \<open>i\<close> is the boundary point of the circle at the angle
  \<open>2 * pi * i / 36\<close>, sheared by \<open>x' = x + shear_x * y\<close>, \<open>y' = y + shear_y * x\<close>. The
  capability query on the result is true and a second shear is Polygon's shear. The change of
  class is permanent: after any sequence of transform calls the object is still a Polygon with
  36 points, and none of the calls raises.
\<close>

theorem C7_circle_shear_becomes_polygon:
  "\<exists>p. shear (Circle_obj c) sx sy = Polygon_obj p \<and>
       length (Polygon.points p) = 36 \<and>
       Polygon.points p =
         map (\<lambda>i. let x = Circle.center_x c + Circle.radius c * cos (2 * pi * real i / 36);
                       y = Circle.center_y c + Circle.radius c * sin (2 * pi * real i / 36)
                   in (x + sx * y, y + sy * x)) [0..<36] \<and>
       class_name (shear (Circle_obj c) sx sy) = ''Polygon'' \<and>
       hasattr_shear (shear (Circle_obj c) sx sy) \<and>
       shear_transform (shear (Circle_obj c) sx sy) sx' sy'
         = Some (Polygon_obj (Polygon_shear p sx' sy')) \<and>
       (\<forall>ts. \<exists>q. apply_transforms (shear (Circle_obj c) sx sy) ts = Inr (Polygon_obj q) \<and>
                  length (Polygon.points q) = 36)"
proof -
  let ?p = "Circle_shear c sx sy"
  have len: "length (Polygon.points ?p) = 36"
    by (simp add: Circle_shear_points)
  then have ne: "Polygon.points ?p \<noteq> []" by auto
  have perm: "\<forall>ts. \<exists>q. apply_transforms (Polygon_obj ?p) ts = Inr (Polygon_obj q) \<and>
                length (Polygon.points q) = 36"
    using Polygon_apply_transforms [OF ne] len by simp
  have q: "hasattr_shear (Polygon_obj ?p)"
    by (simp add: hasattr_shear_def classes_with_shear_def)
  show ?thesis
    using len perm q Circle_shear_points [of c sx sy]
    by (simp add: shear_transform_def)
qed

section \<open>Rotation of the classes with point lists\<close>

text \<open>The rotation loop of Triangle and Polygon is the specification's rotation, point by
  point.\<close>

lemma rotate_points_spec:
  "rotate_points angle cx cy ps = map (spec_rotate_point angle (cx, cy)) ps"
  by (auto simp add: rotate_points_def spec_rotate_point_def Let_def algebra_simps)

lemma Triangle_rotate_explicit:
  "Triangle_rotate t a (Some cx) (Some cy) =
     Inr (t\<lparr>Triangle.points := map (spec_rotate_point a (cx, cy)) (Triangle.points t)\<rparr>)"
  by (simp add: Triangle_rotate_def rotate_points_spec)

lemma Triangle_rotate_default:
  assumes "px = None \<or> py = None" and "points_mean (Triangle.points t) = Inr m"
  shows "Triangle_rotate t a px py =
     Inr (t\<lparr>Triangle.points := map (spec_rotate_point a m) (Triangle.points t)\<rparr>)"
  using assms
  by (cases m) (auto simp add: Triangle_rotate_def rotate_points_spec split: option.splits)

lemma Polygon_rotate_explicit:
  "Polygon_rotate t a (Some cx) (Some cy) =
     Inr (t\<lparr>Polygon.points := map (spec_rotate_point a (cx, cy)) (Polygon.points t)\<rparr>)"
  by (simp add: Polygon_rotate_def rotate_points_spec)

lemma Polygon_rotate_default:
  assumes "px = None \<or> py = None" and "points_mean (Polygon.points t) = Inr m"
  shows "Polygon_rotate t a px py =
     Inr (t\<lparr>Polygon.points := map (spec_rotate_point a m) (Polygon.points t)\<rparr>)"
  using assms
  by (cases m) (auto simp add: Polygon_rotate_def rotate_points_spec split: option.splits)

text \<open>Pentagon and Hexagon rotate their centre only and then generate the points anew, always
  in the orientation of the constructor. With the pivot omitted the angle is not read at all.\<close>

lemma Pentagon_rotate_default:
  assumes "px = None \<or> py = None"
  shows "Pentagon_rotate p a px py =
     p\<lparr>Pentagon.points := generate_pentagon_points (Pentagon.center_x p) (Pentagon.center_y p)
                              (Pentagon.radius p)\<rparr>"
proof (cases px)
  case None
  then show ?thesis by (simp add: Pentagon_rotate_def)
next
  case (Some cx)
  with assms have "py = None" by simp
  with Some show ?thesis by (simp add: Pentagon_rotate_def)
qed

lemma Hexagon_rotate_default:
  assumes "px = None \<or> py = None"
  shows "Hexagon_rotate p a px py =
     p\<lparr>Hexagon.points := generate_hexagon_points (Hexagon.center_x p) (Hexagon.center_y p)
                             (Hexagon.radius p)\<rparr>"
proof (cases px)
  case None
  then show ?thesis by (simp add: Hexagon_rotate_def)
next
  case (Some cx)
  with assms have "py = None" by simp
  with Some show ?thesis by (simp add: Hexagon_rotate_def)
qed

lemma generate_pentagon_points_translate:
  "generate_pentagon_points (cx + dx) (cy + dy) r
     = translate_points dx dy (generate_pentagon_points cx cy r)"
  by (simp add: generate_pentagon_points_def translate_points_def Let_def algebra_simps)

lemma generate_hexagon_points_translate:
  "generate_hexagon_points (cx + dx) (cy + dy) r
     = translate_points dx dy (generate_hexagon_points cx cy r)"
  by (simp add: generate_hexagon_points_def translate_points_def Let_def algebra_simps)

text \<open>With an explicit pivot every vertex of a Pentagon is shifted by the displacement of the
  centre; it is not rotated about the pivot.\<close>

lemma Pentagon_rotate_explicit_translates:
  assumes "Pentagon_in_step p"
  shows "Pentagon.points (Pentagon_rotate p a (Some cx) (Some cy)) =
     (let c' = spec_rotate_point a (cx, cy) (Pentagon.center_x p, Pentagon.center_y p)
      in translate_points (fst c' - Pentagon.center_x p) (snd c' - Pentagon.center_y p)
           (Pentagon.points p))"
proof -
  have "generate_pentagon_points x y r
        = translate_points (x - x0) (y - y0) (generate_pentagon_points x0 y0 r)" for x y x0 y0 r
    using generate_pentagon_points_translate [of x0 "x - x0" y0 "y - y0" r] by simp
  then show ?thesis using assms
    by (simp add: Pentagon_rotate_def Pentagon_in_step_def Let_def spec_rotate_point_def
          algebra_simps)
qed

text \<open>
  Claim C1 at a failing input. The Pentagon with centre (0, 0) and radius 1 has its first vertex
  at (0, -1); rotated by \<open>pi\<close> about (0, 0) the specification puts that vertex at (0, 1).
  \<^verbatim>\<open>Pentagon.rotate\<close> leaves it at (0, -1), with the pivot omitted and with the pivot (0, 0)
  that the rotate dialog of canvas.py passes. Likewise for the Hexagon, whose first vertex
  (1, 0) should move to (-1, 0) and stays.
\<close>

theorem C1_pentagon_hexagon_rotate_keeps_vertices:
  "Pentagon.points (Pentagon_init 0 0 1) ! 0 = (0, - 1) \<and>
   spec_rotate_point pi (0, 0) (0, - 1) = (0, 1) \<and>
   Pentagon.points (Pentagon_rotate (Pentagon_init 0 0 1) pi None None) ! 0 = (0, - 1) \<and>
   Pentagon.points (Pentagon_rotate (Pentagon_init 0 0 1) pi (Some 0) (Some 0)) ! 0 = (0, - 1) \<and>
   Hexagon.points (Hexagon_init 0 0 1) ! 0 = (1, 0) \<and>
   spec_rotate_point pi (0, 0) (1, 0) = (- 1, 0) \<and>
   Hexagon.points (Hexagon_rotate (Hexagon_init 0 0 1) pi None None) ! 0 = (1, 0) \<and>
   Hexagon.points (Hexagon_rotate (Hexagon_init 0 0 1) pi (Some 0) (Some 0)) ! 0 = (1, 0)"
  by (simp add: Pentagon_init_def Pentagon_rotate_def generate_pentagon_points_def
        Hexagon_init_def Hexagon_rotate_def generate_hexagon_points_def
        spec_rotate_point_def Let_def upt_rec)

section \<open>Pentagons and Hexagons in step\<close>

lemma Pentagon_regenerate_in_step:
  "Pentagon_in_step p \<Longrightarrow>
   p\<lparr>Pentagon.points := generate_pentagon_points (Pentagon.center_x p) (Pentagon.center_y p)
                            (Pentagon.radius p)\<rparr> = p"
  by (simp add: Pentagon_in_step_def)

lemma Hexagon_regenerate_in_step:
  "Hexagon_in_step p \<Longrightarrow>
   p\<lparr>Hexagon.points := generate_hexagon_points (Hexagon.center_x p) (Hexagon.center_y p)
                           (Hexagon.radius p)\<rparr> = p"
  by (simp add: Hexagon_in_step_def)

lemma Pentagon_init_in_step: "Pentagon_in_step (Pentagon_init cx cy r)"
  by (simp add: Pentagon_in_step_def Pentagon_init_def)

lemma Pentagon_translate_in_step:
  "Pentagon_in_step p \<Longrightarrow> Pentagon_in_step (Pentagon_translate p dx dy)"
  by (simp add: Pentagon_in_step_def Pentagon_translate_def generate_pentagon_points_translate)

lemma Pentagon_scale_in_step: "Pentagon_in_step (Pentagon_scale p f px py)"
  by (simp add: Pentagon_in_step_def Pentagon_scale_def Let_def split: option.splits)

lemma Pentagon_rotate_in_step: "Pentagon_in_step (Pentagon_rotate p a px py)"
  by (simp add: Pentagon_in_step_def Pentagon_rotate_def Let_def split: option.splits)

lemma Pentagon_copy_in_step: "Pentagon_in_step (Pentagon_copy p)"
  by (simp add: Pentagon_in_step_def Pentagon_copy_def Pentagon_init_def)

lemma Hexagon_init_in_step: "Hexagon_in_step (Hexagon_init cx cy r)"
  by (simp add: Hexagon_in_step_def Hexagon_init_def)

lemma Hexagon_translate_in_step:
  "Hexagon_in_step p \<Longrightarrow> Hexagon_in_step (Hexagon_translate p dx dy)"
  by (simp add: Hexagon_in_step_def Hexagon_translate_def generate_hexagon_points_translate)

lemma Hexagon_scale_in_step: "Hexagon_in_step (Hexagon_scale p f px py)"
  by (simp add: Hexagon_in_step_def Hexagon_scale_def Let_def split: option.splits)

lemma Hexagon_rotate_in_step: "Hexagon_in_step (Hexagon_rotate p a px py)"
  by (simp add: Hexagon_in_step_def Hexagon_rotate_def Let_def split: option.splits)

lemma Hexagon_copy_in_step: "Hexagon_in_step (Hexagon_copy p)"
  by (simp add: Hexagon_in_step_def Hexagon_copy_def Hexagon_init_def)

section \<open>Scaling by one\<close>

lemma scale_points_one: "scale_points 1 cx cy ps = ps"
  by (induction ps) (auto simp add: scale_points_def)

lemma Line_scale_one: "Line_scale l 1 px py = l"
  by (simp add: Line_scale_def split: option.splits prod.splits)

lemma Circle_scale_one: "Circle_scale c 1 px py = c"
  by (simp add: Circle_scale_def split: option.splits)

lemma Rectangle_scale_one: "Rectangle_scale r 1 px py = r"
  by (simp add: Rectangle_scale_def split: option.splits prod.splits)

lemma Ellipse_scale_one: "Ellipse_scale e 1 px py = e"
  by (simp add: Ellipse_scale_def split: option.splits)

lemma Triangle_scale_one:
  "Triangle.points t \<noteq> [] \<or> (px \<noteq> None \<and> py \<noteq> None) \<Longrightarrow> Triangle_scale t 1 px py = Inr t"
  by (auto simp add: Triangle_scale_def scale_points_one points_mean_def py_truediv_def Let_def
        split: option.splits)

lemma Polygon_scale_one:
  "Polygon.points p \<noteq> [] \<or> (px \<noteq> None \<and> py \<noteq> None) \<Longrightarrow> Polygon_scale p 1 px py = Inr p"
  by (auto simp add: Polygon_scale_def scale_points_one points_mean_def py_truediv_def Let_def
        split: option.splits)

lemma Pentagon_scale_one: "Pentagon_in_step p \<Longrightarrow> Pentagon_scale p 1 px py = p"
  by (auto simp add: Pentagon_scale_def Pentagon_in_step_def Let_def split: option.splits)

lemma Hexagon_scale_one: "Hexagon_in_step p \<Longrightarrow> Hexagon_scale p 1 px py = p"
  by (auto simp add: Hexagon_scale_def Hexagon_in_step_def Let_def split: option.splits)

text \<open>
  Claim C2 at a failing input. The pentagon tool dragged from (0, 0) to (1, 0) creates the
  Pentagon with centre (0, 0) and radius 1. \<^verbatim>\<open>shear(1, 0)\<close> moves its first vertex from
  (0, -1) to (-1, -1). \<^verbatim>\<open>scale(1.0)\<close> then generates the points anew from centre and radius
  and the vertex is back at (0, -1): with the pivot omitted, and with the pivot (0, 0) that the
  scale dialog of canvas.py passes.
\<close>

theorem C2_sheared_pentagon_scale_one_changes_points:
  "create_shape ''pentagon'' 0 0 1 0 = Some (Pentagon_obj (Pentagon_init 0 0 1)) \<and>
   shear (Pentagon_obj (Pentagon_init 0 0 1)) 1 0
     = Pentagon_obj (Pentagon_shear (Pentagon_init 0 0 1) 1 0) \<and>
   Pentagon.points (Pentagon_shear (Pentagon_init 0 0 1) 1 0) ! 0 = (- 1, - 1) \<and>
   Pentagon.points (Pentagon_scale (Pentagon_shear (Pentagon_init 0 0 1) 1 0) 1 None None) ! 0
     = (0, - 1) \<and>
   Pentagon.points
     (Pentagon_scale (Pentagon_shear (Pentagon_init 0 0 1) 1 0) 1 (Some 0) (Some 0)) ! 0
     = (0, - 1)"
  by (simp add: create_shape_def Pentagon_init_def Pentagon_scale_def Pentagon_shear_def
        shear_points_def generate_pentagon_points_def Let_def upt_rec)

section \<open>Rotation by zero, and there and back\<close>

lemma rotate_points_zero: "rotate_points 0 cx cy ps = ps"
  by (induction ps) (auto simp add: rotate_points_def)

lemma cos_sin_unit: "x * (cos a * cos a) + x * (sin a * sin a) = (x::real)"
  by (simp add: distrib_left [symmetric])

lemma rotate_back_x:
  "cos a * (x * cos a - y * sin a) + sin a * (x * sin a + y * cos a) = (x::real)"
  using cos_sin_unit [of x a] by (simp add: algebra_simps)

lemma rotate_back_y:
  "cos a * (x * sin a + y * cos a) - sin a * (x * cos a - y * sin a) = (y::real)"
  using cos_sin_unit [of y a] by (simp add: algebra_simps)

lemma rotate_back_x_pivot:
  "cx + ((x - cx) * cos a - (y - cy) * sin a) * cos a
      + ((x - cx) * sin a + (y - cy) * cos a) * sin a = (x::real)"
  using rotate_back_x [of a "x - cx" "y - cy"] by (simp add: algebra_simps)

lemma rotate_back_y_pivot:
  "cy - ((x - cx) * cos a - (y - cy) * sin a) * sin a
      + ((x - cx) * sin a + (y - cy) * cos a) * cos a = (y::real)"
  using rotate_back_y [of a "x - cx" "y - cy"] by (simp add: algebra_simps)

lemma rotate_points_inverse: "rotate_points (- a) cx cy (rotate_points a cx cy ps) = ps"
proof (induction ps)
  case Nil
  then show ?case by (simp add: rotate_points_def)
next
  case (Cons p ps)
  obtain x y where p: "p = (x, y)" by (cases p)
  from Cons.IH show ?case
    by (simp add: rotate_points_def Let_def p rotate_back_x_pivot rotate_back_y_pivot)
qed

text \<open>The default pivot of Triangle and Polygon, the mean of the points, is a fixed point of
  the rotation about it: the second rotation with the pivot omitted uses the same pivot.\<close>

lemma sum_list_rotated_fst:
  "sum_list (map fst (rotate_points a cx cy ps)) =
     real (length ps) * cx + cos a * (sum_list (map fst ps) - real (length ps) * cx)
                         - sin a * (sum_list (map snd ps) - real (length ps) * cy)"
  by (induction ps) (auto simp add: rotate_points_def Let_def algebra_simps)

lemma sum_list_rotated_snd:
  "sum_list (map snd (rotate_points a cx cy ps)) =
     real (length ps) * cy + sin a * (sum_list (map fst ps) - real (length ps) * cx)
                         + cos a * (sum_list (map snd ps) - real (length ps) * cy)"
  by (induction ps) (auto simp add: rotate_points_def Let_def algebra_simps)

lemma points_mean_Inr:
  "points_mean ps = Inr (cx, cy) \<longleftrightarrow>
     ps \<noteq> [] \<and> sum_list (map fst ps) = real (length ps) * cx \<and>
     sum_list (map snd ps) = real (length ps) * cy"
  by (auto simp add: points_mean_def py_truediv_def Let_def field_simps)

lemma points_mean_rotate_points:
  assumes "points_mean ps = Inr (cx, cy)"
  shows "points_mean (rotate_points a cx cy ps) = Inr (cx, cy)"
proof -
  from assms have ne: "ps \<noteq> []"
    and sx: "sum_list (map fst ps) = real (length ps) * cx"
    and sy: "sum_list (map snd ps) = real (length ps) * cy"
    by (simp_all add: points_mean_Inr)
  have "rotate_points a cx cy ps \<noteq> []"
    using ne length_rotate_points [of a cx cy ps] by auto
  moreover have "sum_list (map fst (rotate_points a cx cy ps))
      = real (length (rotate_points a cx cy ps)) * cx"
    by (simp add: sum_list_rotated_fst sx sy length_rotate_points)
  moreover have "sum_list (map snd (rotate_points a cx cy ps))
      = real (length (rotate_points a cx cy ps)) * cy"
    by (simp add: sum_list_rotated_snd sx sy length_rotate_points)
  ultimately show ?thesis by (simp add: points_mean_Inr)
qed

lemma Line_rotate_zero: "Line_rotate l 0 px py = l"
  by (simp add: Line_rotate_def Let_def split: option.splits prod.splits)

lemma Line_rotate_inverse_explicit:
  "Line_rotate (Line_rotate l a (Some cx) (Some cy)) (- a) (Some cx) (Some cy) = l"
  by (simp add: Line_rotate_def Let_def rotate_back_x_pivot rotate_back_y_pivot)

lemma Line_rotate_default_pivot:
  "Line_rotate l a None None =
     Line_rotate l a (Some ((Line.x1 l + Line.x2 l) / 2)) (Some ((Line.y1 l + Line.y2 l) / 2))"
  by (simp add: Line_rotate_def)

lemma Line_rotate_keeps_midpoint:
  "(Line.x1 (Line_rotate l a None None) + Line.x2 (Line_rotate l a None None)) / 2
     = (Line.x1 l + Line.x2 l) / 2 \<and>
   (Line.y1 (Line_rotate l a None None) + Line.y2 (Line_rotate l a None None)) / 2
     = (Line.y1 l + Line.y2 l) / 2"
  by (simp add: Line_rotate_def Let_def field_simps)

lemma Line_rotate_inverse_default:
  "Line_rotate (Line_rotate l a None None) (- a) None None = l"
proof -
  let ?mx = "(Line.x1 l + Line.x2 l) / 2" and ?my = "(Line.y1 l + Line.y2 l) / 2"
  have "Line_rotate (Line_rotate l a None None) (- a) None None
        = Line_rotate (Line_rotate l a None None) (- a) (Some ?mx) (Some ?my)"
    by (simp only: Line_rotate_default_pivot [of "Line_rotate l a None None"]
          conjunct1 [OF Line_rotate_keeps_midpoint [of l a]]
          conjunct2 [OF Line_rotate_keeps_midpoint [of l a]])
  also have "\<dots> = Line_rotate (Line_rotate l a (Some ?mx) (Some ?my)) (- a) (Some ?mx) (Some ?my)"
    by (simp only: Line_rotate_default_pivot [of l])
  also have "\<dots> = l" by (rule Line_rotate_inverse_explicit)
  finally show ?thesis .
qed

lemma Triangle_rotate_zero:
  "Triangle.points t \<noteq> [] \<or> (px \<noteq> None \<and> py \<noteq> None) \<Longrightarrow> Triangle_rotate t 0 px py = Inr t"
  by (auto simp add: Triangle_rotate_def rotate_points_zero points_mean_def py_truediv_def Let_def
        split: option.splits)

lemma Triangle_rotate_inverse_explicit:
  "\<exists>q. Triangle_rotate t a (Some cx) (Some cy) = Inr q \<and>
       Triangle_rotate q (- a) (Some cx) (Some cy) = Inr t"
  by (simp add: Triangle_rotate_def rotate_points_inverse)

lemma Triangle_rotate_inverse_default:
  assumes "Triangle.points t \<noteq> []"
  shows "\<exists>q. Triangle_rotate t a None None = Inr q \<and> Triangle_rotate q (- a) None None = Inr t"
proof -
  obtain m where "points_mean (Triangle.points t) = Inr m"
    using points_mean_nonempty [OF assms] by blast
  then obtain cx cy where m: "points_mean (Triangle.points t) = Inr (cx, cy)"
    by (cases m) simp
  then show ?thesis
    by (simp add: Triangle_rotate_def points_mean_rotate_points [OF m] rotate_points_inverse)
qed

lemma Polygon_rotate_zero:
  "Polygon.points p \<noteq> [] \<or> (px \<noteq> None \<and> py \<noteq> None) \<Longrightarrow> Polygon_rotate p 0 px py = Inr p"
  by (auto simp add: Polygon_rotate_def rotate_points_zero points_mean_def py_truediv_def Let_def
        split: option.splits)

lemma Polygon_rotate_inverse_explicit:
  "\<exists>q. Polygon_rotate p a (Some cx) (Some cy) = Inr q \<and>
       Polygon_rotate q (- a) (Some cx) (Some cy) = Inr p"
  by (simp add: Polygon_rotate_def rotate_points_inverse)

lemma Polygon_rotate_inverse_default:
  assumes "Polygon.points p \<noteq> []"
  shows "\<exists>q. Polygon_rotate p a None None = Inr q \<and> Polygon_rotate q (- a) None None = Inr p"
proof -
  obtain m where "points_mean (Polygon.points p) = Inr m"
    using points_mean_nonempty [OF assms] by blast
  then obtain cx cy where m: "points_mean (Polygon.points p) = Inr (cx, cy)"
    by (cases m) simp
  then show ?thesis
    by (simp add: Polygon_rotate_def points_mean_rotate_points [OF m] rotate_points_inverse)
qed

lemma Pentagon_rotate_zero: "Pentagon_in_step p \<Longrightarrow> Pentagon_rotate p 0 px py = p"
  by (auto simp add: Pentagon_rotate_def Pentagon_in_step_def split: option.splits)

lemma Hexagon_rotate_zero: "Hexagon_in_step p \<Longrightarrow> Hexagon_rotate p 0 px py = p"
  by (auto simp add: Hexagon_rotate_def Hexagon_in_step_def split: option.splits)

lemma Pentagon_rotate_inverse_default:
  assumes "Pentagon_in_step p" and "px = None \<or> py = None"
  shows "Pentagon_rotate (Pentagon_rotate p a px py) (- a) px py = p"
  by (simp only: Pentagon_rotate_default [OF assms(2)] Pentagon_regenerate_in_step [OF assms(1)])

lemma Pentagon_rotate_inverse_explicit:
  assumes "Pentagon_in_step p"
  shows "Pentagon_rotate (Pentagon_rotate p a (Some cx) (Some cy)) (- a) (Some cx) (Some cy) = p"
  using Pentagon_regenerate_in_step [OF assms]
  by (simp add: Pentagon_rotate_def Let_def rotate_back_x_pivot rotate_back_y_pivot)

lemma Hexagon_rotate_inverse_default:
  assumes "Hexagon_in_step p" and "px = None \<or> py = None"
  shows "Hexagon_rotate (Hexagon_rotate p a px py) (- a) px py = p"
  by (simp only: Hexagon_rotate_default [OF assms(2)] Hexagon_regenerate_in_step [OF assms(1)])

lemma Hexagon_rotate_inverse_explicit:
  assumes "Hexagon_in_step p"
  shows "Hexagon_rotate (Hexagon_rotate p a (Some cx) (Some cy)) (- a) (Some cx) (Some cy) = p"
  using Hexagon_regenerate_in_step [OF assms]
  by (simp add: Hexagon_rotate_def Let_def rotate_back_x_pivot rotate_back_y_pivot)

text \<open>
  Claim C3 at a failing input. The hexagon tool dragged from (0, 0) to (1, 0) creates the
  Hexagon with centre (0, 0) and radius 1. \<^verbatim>\<open>shear(0, 1)\<close> moves its first vertex from (1, 0)
  to (1, 1). A rotation by 0 then generates the points anew and the vertex is at (1, 0); so is
  it after a rotation by \<open>pi / 2\<close> followed by one by \<open>- pi / 2\<close> about the same pivot (0, 0).
\<close>

theorem C3_sheared_hexagon_rotate_zero_changes_points:
  "create_shape ''hexagon'' 0 0 1 0 = Some (Hexagon_obj (Hexagon_init 0 0 1)) \<and>
   shear (Hexagon_obj (Hexagon_init 0 0 1)) 0 1
     = Hexagon_obj (Hexagon_shear (Hexagon_init 0 0 1) 0 1) \<and>
   Hexagon.points (Hexagon_shear (Hexagon_init 0 0 1) 0 1) ! 0 = (1, 1) \<and>
   Hexagon.points (Hexagon_rotate (Hexagon_shear (Hexagon_init 0 0 1) 0 1) 0 None None) ! 0
     = (1, 0) \<and>
   Hexagon.points
     (Hexagon_rotate (Hexagon_shear (Hexagon_init 0 0 1) 0 1) 0 (Some 0) (Some 0)) ! 0
     = (1, 0) \<and>
   Hexagon.points
     (Hexagon_rotate
        (Hexagon_rotate (Hexagon_shear (Hexagon_init 0 0 1) 0 1) (pi / 2) (Some 0) (Some 0))
        (- (pi / 2)) (Some 0) (Some 0)) ! 0
     = (1, 0)"
  by (simp add: create_shape_def Hexagon_init_def Hexagon_rotate_def Hexagon_shear_def
        shear_points_def generate_hexagon_points_def Let_def upt_rec)

section \<open>Copies\<close>

text \<open>What \<^verbatim>\<open>copy\<close> returns, class by class. The flag \<^verbatim>\<open>selected\<close> of a copy is always the
  False of \<^verbatim>\<open>Shape.__init__\<close>.\<close>

lemma Circle_copy_eq: "Circle_copy c = c\<lparr>selected := False\<rparr>"
  by (simp add: Circle_copy_def Circle_init_def)

lemma Ellipse_copy_eq: "Ellipse_copy e = e\<lparr>selected := False\<rparr>"
  by (simp add: Ellipse_copy_def Ellipse_init_def)

lemma Triangle_copy_eq: "Triangle_copy t = t\<lparr>selected := False\<rparr>"
  by (simp add: Triangle_copy_def Triangle_init_def Let_def)

lemma Polygon_copy_eq: "Polygon_copy p = p\<lparr>selected := False\<rparr>"
  by (simp add: Polygon_copy_def Polygon_init_def)

lemma Line_copy_eq: "Line_copy l = l\<lparr>selected := False, fill_color := ''''\<rparr>"
  by (simp add: Line_copy_def Line_init_def)

lemma Rectangle_copy_eq:
  "Rectangle.x1 r \<le> Rectangle.x2 r \<Longrightarrow> Rectangle.y1 r \<le> Rectangle.y2 r \<Longrightarrow>
   Rectangle_copy r = r\<lparr>selected := False\<rparr>"
  by (simp add: Rectangle_copy_def Rectangle_init_def)

lemma Pentagon_copy_eq: "Pentagon_in_step p \<Longrightarrow> Pentagon_copy p = p\<lparr>selected := False\<rparr>"
  by (simp add: Pentagon_copy_def Pentagon_init_def Pentagon_in_step_def)

lemma Hexagon_copy_eq: "Hexagon_in_step p \<Longrightarrow> Hexagon_copy p = p\<lparr>selected := False\<rparr>"
  by (simp add: Hexagon_copy_def Hexagon_init_def Hexagon_in_step_def)

text \<open>Two more copies that differ from their original: a sheared Pentagon is copied without
  its shear, and a Rectangle mirrored by a negative scale factor is copied with its corners
  swapped back by the constructor.\<close>

lemma Pentagon_copy_after_shear:
  "Pentagon.points (Pentagon_shear (Pentagon_init 0 0 1) 1 0) ! 0 = (- 1, - 1) \<and>
   Pentagon.points (Pentagon_copy (Pentagon_shear (Pentagon_init 0 0 1) 1 0)) ! 0 = (0, - 1)"
  by (simp add: Pentagon_copy_def Pentagon_init_def Pentagon_shear_def shear_points_def
        generate_pentagon_points_def Let_def upt_rec)

lemma Rectangle_copy_after_mirror:
  "Rectangle_get_bounds (Rectangle_scale (Rectangle_init 0 0 10 10) (- 1) (Some 0) (Some 0))
     = (0, 0, - 10, - 10) \<and>
   Rectangle_get_bounds
     (Rectangle_copy (Rectangle_scale (Rectangle_init 0 0 10 10) (- 1) (Some 0) (Some 0)))
     = (- 10, - 10, 0, 0)"
  by (simp add: Rectangle_get_bounds_def Rectangle_copy_def Rectangle_scale_def
        Rectangle_init_def)

text \<open>
  Claim C4 at a failing input. A Line drawn from (0, 0) to (1, 1) while the fill colour of the
  application is red carries \<^verbatim>\<open>fill_color = "red"\<close> (\<^verbatim>\<open>on_release\<close> assigns the four style
  attributes to every new shape). Its copy has the empty fill colour of \<^verbatim>\<open>Shape.__init__\<close>:
  \<^verbatim>\<open>Line.copy\<close> assigns \<^verbatim>\<open>line_color\<close>, \<^verbatim>\<open>line_width\<close> and \<^verbatim>\<open>line_style\<close> only. The other
  attributes of the copy equal those of the original.
\<close>

theorem C4_line_copy_drops_fill_color:
  "fill_color ((Line_init 0 0 1 1)\<lparr>fill_color := ''red''\<rparr>) = ''red'' \<and>
   fill_color (Line_copy ((Line_init 0 0 1 1)\<lparr>fill_color := ''red''\<rparr>)) = '''' \<and>
   copy (Line_obj ((Line_init 0 0 1 1)\<lparr>fill_color := ''red''\<rparr>)) = Line_obj (Line_init 0 0 1 1)"
  by (simp add: Line_init_def Line_copy_def)

end
